theory Spec2Isabelle
  imports Complex_Main "HOL-Library.AList"
begin

section \<open>Python values\<close>

text \<open>
  The program works on dictionaries decoded from JSON. A value stored under a key is one of
  the following. Python's \<open>int\<close> and \<open>float\<close> are both represented by the number they
  denote (a \<open>real\<close>); floating-point rounding error, \<open>inf\<close> and \<open>nan\<close> are outside
  the model, as are dictionaries nested inside a record.
\<close>

datatype pyval = PNone | PBool bool | PNum real | PStr string | PList "pyval list"

text \<open>A dictionary keeps its keys in insertion order; \<open>d[k] = v\<close> is \<open>AList.update k v d\<close>.\<close>

type_synonym pydict = "(string \<times> pyval) list"

text \<open>What a caller may pass where a dictionary is expected.\<close>

datatype pyobj = Dict pydict | Val pyval

datatype py_error = ValueError string | TypeError | AttributeError | KeyError

definition dict_get :: "pydict \<Rightarrow> string \<Rightarrow> pyval \<Rightarrow> pyval" where
  "dict_get d k dflt = (case map_of d k of None \<Rightarrow> dflt | Some v \<Rightarrow> v)"

definition dict_set :: "pydict \<Rightarrow> string \<Rightarrow> pyval \<Rightarrow> pydict" where
  "dict_set d k v = AList.update k v d"

fun truthy :: "pyval \<Rightarrow> bool" where
  "truthy PNone = False"
| "truthy (PBool b) = b"
| "truthy (PNum r) = (r \<noteq> 0)"
| "truthy (PStr s) = (s \<noteq> [])"
| "truthy (PList xs) = (xs \<noteq> [])"

text \<open>
  Python's \<open>float(v)\<close>. Parsing a string is the builtin's business: it is the parameter
  \<open>fs\<close>, which returns \<open>None\<close> where \<open>float\<close> raises \<open>ValueError\<close>.
\<close>

fun py_float :: "(string \<Rightarrow> real option) \<Rightarrow> pyval \<Rightarrow> py_error + real" where
  "py_float fs (PNum r) = Inr r"
| "py_float fs (PBool b) = Inr (if b then 1 else 0)"
| "py_float fs (PStr s) =
     (case fs s of None \<Rightarrow> Inl (ValueError ''could not convert string to float'')
      | Some r \<Rightarrow> Inr r)"
| "py_float fs PNone = Inl TypeError"
| "py_float fs (PList xs) = Inl TypeError"

text \<open>Python's \<open>round(x, 2)\<close>: to the nearest hundredth, a tie going to the even one.\<close>

definition round_half_even :: "real \<Rightarrow> int" where
  "round_half_even x =
     (let f = \<lfloor>x\<rfloor>; d = x - of_int f
      in if d < 1 / 2 then f else if 1 / 2 < d then f + 1
         else if even f then f else f + 1)"

definition round2 :: "real \<Rightarrow> real" where
  "round2 x = of_int (round_half_even (x * 100)) / 100"

section \<open>The tax calculator (tax_calculator.py)\<close>

text \<open>A bracket's upper limit: a number, or \<open>float('inf')\<close> for the last bracket.\<close>

datatype bound = Finite real | Infinity

definition tax_brackets_single :: "(bound \<times> real) list" where
  "tax_brackets_single =
     [(Finite 11000, 0.10), (Finite 44725, 0.12), (Finite 95375, 0.22),
      (Finite 182050, 0.24), (Finite 231250, 0.32), (Finite 578125, 0.35),
      (Infinity, 0.37)]"

definition standard_deductions :: "(string \<times> real) list" where
  "standard_deductions =
     [(''single'', 14600), (''married_filing_jointly'', 29200),
      (''married_filing_separately'', 14600), (''head_of_household'', 21900)]"

text \<open>
  The \<open>for bracket_limit, rate in self.tax_brackets_single\<close> loop of
  \<open>calculate_federal_tax\<close>, with its two \<open>break\<close>s. With the limit \<open>inf\<close>,
  \<open>min(taxable_income, inf)\<close> is the income and \<open>taxable_income <= inf\<close> holds.
\<close>

fun bracket_loop :: "real \<Rightarrow> (bound \<times> real) list \<Rightarrow> real \<Rightarrow> real \<Rightarrow> real" where
  "bracket_loop ti [] total_tax previous_bracket = total_tax"
| "bracket_loop ti ((bracket_limit, rate) # rest) total_tax previous_bracket =
     (if ti \<le> previous_bracket then total_tax
      else (case bracket_limit of
              Infinity \<Rightarrow> total_tax + (ti - previous_bracket) * rate
            | Finite l \<Rightarrow>
                (let total_tax' = total_tax + (min ti l - previous_bracket) * rate
                 in if ti \<le> l then total_tax'
                    else bracket_loop ti rest total_tax' l)))"

text \<open>
  The body of the \<open>try\<close> in \<open>calculate_federal_tax\<close>. The argument is a number, so the
  \<open>isinstance\<close> check passes.
\<close>

definition federal_tax_body :: "real \<Rightarrow> py_error + real" where
  "federal_tax_body ti =
     (if ti \<le> 0 then Inr 0
      else if 100000000 < ti then Inl (ValueError ''Unreasonably high taxable income'')
      else Inr (round2 (bracket_loop ti tax_brackets_single 0 0)))"

text \<open>\<open>except Exception\<close>: the error is logged and 0.0 returned.\<close>

definition calculate_federal_tax :: "real \<Rightarrow> real" where
  "calculate_federal_tax ti = (case federal_tax_body ti of Inl e \<Rightarrow> 0 | Inr tax \<Rightarrow> tax)"

text \<open>
  \<open>str.lower()\<close> and \<open>str.strip()\<close>. A \<open>char\<close> is a byte: the model covers ASCII
  text, where Python's case mapping and whitespace are the ones below.
\<close>

definition lower_char :: "char \<Rightarrow> char" where
  "lower_char c =
     (let n = (of_char c :: nat) in if 65 \<le> n \<and> n \<le> 90 then char_of (n + 32) else c)"

definition str_lower :: "string \<Rightarrow> string" where
  "str_lower s = map lower_char s"

definition is_space :: "char \<Rightarrow> bool" where
  "is_space c = (let n = (of_char c :: nat) in (9 \<le> n \<and> n \<le> 13) \<or> (28 \<le> n \<and> n \<le> 32))"

definition str_strip :: "string \<Rightarrow> string" where
  "str_strip s = rev (dropWhile is_space (rev (dropWhile is_space s)))"

text \<open>\<open>v.lower()\<close>: only a string has the method.\<close>

fun py_lower :: "pyval \<Rightarrow> py_error + string" where
  "py_lower (PStr s) = Inr (str_lower s)"
| "py_lower v = Inl AttributeError"

definition monetary_fields :: "string list" where
  "monetary_fields = [''wages'', ''interest_income'', ''other_income'', ''federal_withholding'']"

text \<open>
  One pass of the loop over \<open>monetary_fields\<close> in \<open>validate_tax_data\<close>: first the body
  of the \<open>try\<close>, which raises or returns the dictionary as it then is.
\<close>

definition check_field :: "(string \<Rightarrow> real option) \<Rightarrow> pydict \<Rightarrow> string \<Rightarrow> py_error + pydict" where
  "check_field fs tax_data field =
     (case py_float fs (dict_get tax_data field (PNum 0)) of
        Inl e \<Rightarrow> Inl e
      | Inr float_value \<Rightarrow>
          if float_value < 0 then Inr (dict_set tax_data field (PNum 0))
          else if 50000000 < float_value
               then Inl (ValueError (''Unreasonably high value for '' @ field))
          else Inr tax_data)"

text \<open>
  Then its \<open>except (ValueError, TypeError)\<close>, which sits around the \<open>raise\<close> of the
  sanity check as well: the field is set to 0. The body raises nothing else
  (\<open>check_field_raises\<close> below).
\<close>

definition validate_field :: "(string \<Rightarrow> real option) \<Rightarrow> pydict \<Rightarrow> string \<Rightarrow> pydict" where
  "validate_field fs tax_data field =
     (case check_field fs tax_data field of
        Inl e \<Rightarrow> dict_set tax_data field (PNum 0)
      | Inr tax_data' \<Rightarrow> tax_data')"

text \<open>
  \<open>validate_tax_data\<close> works on the caller's object in place. The result is either
  \<open>Inl (e, obj)\<close>, the exception raised and the state the caller's object is left in, or
  \<open>Inr d\<close>, the dictionary returned, which is the caller's object after the updates.
\<close>

definition validate_tax_data ::
  "(string \<Rightarrow> real option) \<Rightarrow> pyobj \<Rightarrow> (py_error \<times> pyobj) + pydict" where
  "validate_tax_data fs tax_data =
     (case tax_data of
        Val v \<Rightarrow>
          if \<not> truthy v then Inl (ValueError ''Tax data cannot be empty'', tax_data)
          else Inl (ValueError ''Tax data must be a dictionary'', tax_data)
      | Dict d \<Rightarrow>
          if d = [] then Inl (ValueError ''Tax data cannot be empty'', tax_data)
          else
            (let d1 = foldl (validate_field fs) d monetary_fields
             in case py_lower (dict_get d1 ''filing_status'' (PStr ''single'')) of
                  Inl e \<Rightarrow> Inl (e, Dict d1)
                | Inr filing_status \<Rightarrow>
                    if filing_status \<notin> set (map fst standard_deductions)
                    then Inr (dict_set d1 ''filing_status'' (PStr ''single''))
                    else Inr d1))"

text \<open>
  The result dictionary of \<open>calculate_taxes\<close>. The key \<open>error\<close> is present only in a
  failure result; its message is represented by the handler that built it and the
  exception it caught.
\<close>

datatype py_failure = ValidationError py_error | UnexpectedError py_error

record tax_result =
  error :: "py_failure option"
  total_income :: real
  standard_deduction :: real
  taxable_income :: real
  federal_tax :: real
  federal_withholding :: real
  refund_or_owed :: real
  is_refund :: bool
  filing_status :: string
  calculation_success :: bool

text \<open>The two handlers of \<open>calculate_taxes\<close>: \<open>except ValueError\<close>, then \<open>except Exception\<close>.\<close>

definition error_result :: "py_error \<Rightarrow> tax_result" where
  "error_result e =
     \<lparr>error = Some (case e of ValueError m \<Rightarrow> ValidationError e | _ \<Rightarrow> UnexpectedError e),
      total_income = 0, standard_deduction = 14600, taxable_income = 0, federal_tax = 0,
      federal_withholding = 0, refund_or_owed = 0, is_refund = False,
      filing_status = ''single'', calculation_success = False\<rparr>"

text \<open>The body of the \<open>try\<close> of \<open>calculate_taxes\<close> after validation.\<close>

definition compute_taxes :: "(string \<Rightarrow> real option) \<Rightarrow> pydict \<Rightarrow> py_error + tax_result" where
  "compute_taxes fs tax_data =
     (case py_float fs (dict_get tax_data ''wages'' (PNum 0)) of Inl e \<Rightarrow> Inl e | Inr wages \<Rightarrow>
      case py_float fs (dict_get tax_data ''interest_income'' (PNum 0)) of Inl e \<Rightarrow> Inl e | Inr interest \<Rightarrow>
      case py_float fs (dict_get tax_data ''other_income'' (PNum 0)) of Inl e \<Rightarrow> Inl e | Inr other \<Rightarrow>
      case py_float fs (dict_get tax_data ''federal_withholding'' (PNum 0)) of Inl e \<Rightarrow> Inl e | Inr withholding \<Rightarrow>
      case py_lower (dict_get tax_data ''filing_status'' (PStr ''single'')) of Inl e \<Rightarrow> Inl e | Inr status \<Rightarrow>
        (let total0 = wages + interest + other;
             total = (if total0 < 0 then 0 else total0);
             deduction = (case map_of standard_deductions status of None \<Rightarrow> 14600 | Some sd \<Rightarrow> sd);
             taxable = max 0 (total - deduction);
             tax = calculate_federal_tax taxable;
             balance = withholding - tax
         in Inr \<lparr>error = None,
                 total_income = round2 total,
                 standard_deduction = round2 deduction,
                 taxable_income = round2 taxable,
                 federal_tax = round2 tax,
                 federal_withholding = round2 withholding,
                 refund_or_owed = round2 balance,
                 is_refund = (0 < balance),
                 filing_status = status,
                 calculation_success = True\<rparr>))"

text \<open>
  \<open>calculate_taxes\<close> never raises. It returns the result dictionary together with the
  state in which it leaves the caller's \<open>tax_data\<close>.
\<close>

definition calculate_taxes :: "(string \<Rightarrow> real option) \<Rightarrow> pyobj \<Rightarrow> tax_result \<times> pyobj" where
  "calculate_taxes fs tax_data =
     (case validate_tax_data fs tax_data of
        Inl (e, tax_data') \<Rightarrow> (error_result e, tax_data')
      | Inr d \<Rightarrow>
          (case compute_taxes fs d of
             Inl e \<Rightarrow> (error_result e, Dict d)
           | Inr result \<Rightarrow> (result, Dict d)))"

text \<open>
  An instance of the parameter \<open>fs\<close> for concrete examples: plain decimal numerals
  (optional sign, digits, optional fraction), on which it agrees with \<open>float\<close>.
\<close>

definition digit_val :: "char \<Rightarrow> nat option" where
  "digit_val c =
     (let n = (of_char c :: nat) in if 48 \<le> n \<and> n \<le> 57 then Some (n - 48) else None)"

fun digits_val :: "nat \<Rightarrow> string \<Rightarrow> nat option" where
  "digits_val acc [] = Some acc"
| "digits_val acc (c # cs) =
     (case digit_val c of None \<Rightarrow> None | Some k \<Rightarrow> digits_val (10 * acc + k) cs)"

definition unsigned_decimal :: "string \<Rightarrow> real option" where
  "unsigned_decimal s =
     (let ip = takeWhile (\<lambda>c. c \<noteq> CHR ''.'') s;
          fp = drop (Suc (length ip)) s
      in if ip = [] then None
         else (case (digits_val 0 ip, digits_val 0 fp) of
                 (Some i, Some f) \<Rightarrow> Some (real i + real f / 10 ^ length fp)
               | _ \<Rightarrow> None))"

definition decimal_float :: "string \<Rightarrow> real option" where
  "decimal_float s =
     (case str_strip s of
        [] \<Rightarrow> None
      | c # cs \<Rightarrow>
          if c = CHR ''-'' then map_option uminus (unsigned_decimal cs)
          else if c = CHR ''+'' then unsigned_decimal cs
          else unsigned_decimal (c # cs))"

section \<open>The multi-document combiner (app.py)\<close>

text \<open>Python's \<open>==\<close> on values: \<open>True == 1\<close> and \<open>1 == 1.0\<close> hold.\<close>

fun py_num :: "pyval \<Rightarrow> real option" where
  "py_num (PNum r) = Some r"
| "py_num (PBool b) = Some (if b then 1 else 0)"
| "py_num v = None"

fun py_eq :: "pyval \<Rightarrow> pyval \<Rightarrow> bool" and py_eq_list :: "pyval list \<Rightarrow> pyval list \<Rightarrow> bool" where
  "py_eq PNone PNone = True"
| "py_eq (PStr s) (PStr t) = (s = t)"
| "py_eq (PList xs) (PList ys) = py_eq_list xs ys"
| "py_eq a b = (case (py_num a, py_num b) of (Some x, Some y) \<Rightarrow> x = y | _ \<Rightarrow> False)"
| "py_eq_list [] [] = True"
| "py_eq_list (x # xs) (y # ys) = (py_eq x y \<and> py_eq_list xs ys)"
| "py_eq_list xs ys = False"

text \<open>
  Python's \<open>a > b\<close>: numbers by value, strings and lists lexicographically, anything
  else raises \<open>TypeError\<close>.
\<close>

fun str_less :: "string \<Rightarrow> string \<Rightarrow> bool" where
  "str_less [] [] = False"
| "str_less [] (b # bs) = True"
| "str_less (a # as) [] = False"
| "str_less (a # as) (b # bs) =
     (if a = b then str_less as bs else (of_char a :: nat) < of_char b)"

fun py_gt :: "pyval \<Rightarrow> pyval \<Rightarrow> py_error + bool"
  and py_gt_list :: "pyval list \<Rightarrow> pyval list \<Rightarrow> py_error + bool" where
  "py_gt (PStr s) (PStr t) = Inr (str_less t s)"
| "py_gt (PList xs) (PList ys) = py_gt_list xs ys"
| "py_gt a b = (case (py_num a, py_num b) of (Some x, Some y) \<Rightarrow> Inr (y < x) | _ \<Rightarrow> Inl TypeError)"
| "py_gt_list [] ys = Inr False"
| "py_gt_list (x # xs) [] = Inr True"
| "py_gt_list (x # xs) (y # ys) = (if py_eq x y then py_gt_list xs ys else py_gt x y)"

text \<open>\<open>max(values, default=dflt)\<close>: the first of the largest items; \<open>dflt\<close> when there is none.\<close>

fun py_max_from :: "pyval \<Rightarrow> pyval list \<Rightarrow> py_error + pyval" where
  "py_max_from best [] = Inr best"
| "py_max_from best (v # vs) =
     (case py_gt v best of
        Inl e \<Rightarrow> Inl e
      | Inr is_greater \<Rightarrow> if is_greater then py_max_from v vs else py_max_from best vs)"

definition py_max_default :: "pyval list \<Rightarrow> pyval \<Rightarrow> py_error + pyval" where
  "py_max_default vs dflt = (case vs of [] \<Rightarrow> Inr dflt | v # rest \<Rightarrow> py_max_from v rest)"

text \<open>\<open>v.strip()\<close>: only a string has the method.\<close>

fun py_strip :: "pyval \<Rightarrow> py_error + string" where
  "py_strip (PStr s) = Inr (str_strip s)"
| "py_strip v = Inl AttributeError"

text \<open>
  The search for \<open>primary_taxpayer\<close>: the loop compares each record's trimmed name with
  that of \<open>combined\<close>, the copy of the first record, and stops at the first longer one.
\<close>

fun find_primary :: "pydict \<Rightarrow> pydict list \<Rightarrow> py_error + pydict option" where
  "find_primary combined [] = Inr None"
| "find_primary combined (data # rest) =
     (if \<not> truthy (dict_get data ''taxpayer_name'' PNone) then find_primary combined rest
      else case py_strip (dict_get data ''taxpayer_name'' (PStr [])) of
        Inl e \<Rightarrow> Inl e
      | Inr name \<Rightarrow>
          (case py_strip (dict_get combined ''taxpayer_name'' (PStr [])) of
             Inl e \<Rightarrow> Inl e
           | Inr current \<Rightarrow>
               if length current < length name then Inr (Some data)
               else find_primary combined rest))"

definition identity_text_fields :: "string list" where
  "identity_text_fields = [''taxpayer_name'', ''ssn'', ''address'', ''city'', ''state'', ''zip_code'']"

text \<open>\<open>combined.update({...})\<close> with the seven identity entries of the primary record.\<close>

definition take_identity :: "pydict \<Rightarrow> pydict \<Rightarrow> pydict" where
  "take_identity combined primary =
     dict_set
       (foldl (\<lambda>c k. dict_set c k (dict_get primary k (PStr []))) combined identity_text_fields)
       ''filing_status'' (dict_get primary ''filing_status'' (PStr ''single''))"

definition money_fields :: "string list" where
  "money_fields =
     [''wages'', ''interest_income'', ''dividend_income'', ''other_income'',
      ''federal_withholding'', ''state_withholding'', ''social_security_wages'',
      ''medicare_wages'']"

text \<open>
  The inner loop of the summation: \<open>total += float(value) if value else 0\<close>, a record
  whose value does not convert being skipped.
\<close>

fun sum_field :: "(string \<Rightarrow> real option) \<Rightarrow> string \<Rightarrow> pydict list \<Rightarrow> real \<Rightarrow> real" where
  "sum_field fs field [] total_v = total_v"
| "sum_field fs field (data # rest) total_v =
     (let v = dict_get data field (PNum 0)
      in if truthy v
         then (case py_float fs v of
                 Inl e \<Rightarrow> sum_field fs field rest total_v
               | Inr x \<Rightarrow> sum_field fs field rest (total_v + x))
         else sum_field fs field rest (total_v + 0))"

text \<open>The \<open>if x not in seen: seen.append(x)\<close> loops.\<close>

fun distinct_values :: "pyval list \<Rightarrow> pyval list \<Rightarrow> pyval list" where
  "distinct_values seen [] = seen"
| "distinct_values seen (v # vs) =
     (if list_ex (py_eq v) seen then distinct_values seen vs
      else distinct_values (seen @ [v]) vs)"

definition qualities :: "string list" where
  "qualities = [''high'', ''medium'', ''low'']"

fun index_of :: "string list \<Rightarrow> string \<Rightarrow> nat" where
  "index_of [] q = 0"
| "index_of (x # xs) q = (if x = q then 0 else Suc (index_of xs q))"

fun best_quality :: "pydict list \<Rightarrow> string \<Rightarrow> string" where
  "best_quality [] best = best"
| "best_quality (data # rest) best =
     (case dict_get data ''document_quality'' (PStr ''medium'') of
        PStr quality \<Rightarrow>
          if quality \<in> set qualities \<and> index_of qualities quality < index_of qualities best
          then best_quality rest quality
          else best_quality rest best
      | v \<Rightarrow> best_quality rest best)"

text \<open>
  \<open>list(set(all_flags))\<close>: a list among the flags is unhashable. The order in which
  Python lists a set is not specified; the model keeps first occurrences in order.
\<close>

fun all_flags :: "pydict list \<Rightarrow> pyval list" where
  "all_flags [] = []"
| "all_flags (data # rest) =
     (case dict_get data ''validation_flags'' (PList []) of
        PList flags \<Rightarrow> flags @ all_flags rest
      | v \<Rightarrow> all_flags rest)"

fun hashable :: "pyval \<Rightarrow> bool" where
  "hashable (PList xs) = False"
| "hashable v = True"

definition unique_flags :: "pydict list \<Rightarrow> py_error + pyval" where
  "unique_flags all_tax_data =
     (if list_all hashable (all_flags all_tax_data)
      then Inr (PList (distinct_values [] (all_flags all_tax_data)))
      else Inl TypeError)"

text \<open>The last loop: payer names and employer numbers, trimmed, each kept once.\<close>

fun collect_payers ::
  "pydict list \<Rightarrow> string list \<Rightarrow> string list \<Rightarrow> py_error + (string list \<times> string list)" where
  "collect_payers [] payers eins = Inr (payers, eins)"
| "collect_payers (data # rest) payers eins =
     (case py_strip (dict_get data ''payer_name'' (PStr [])) of
        Inl e \<Rightarrow> Inl e
      | Inr payer_name \<Rightarrow>
          (case py_strip (dict_get data ''employer_ein'' (PStr [])) of
             Inl e \<Rightarrow> Inl e
           | Inr employer_ein \<Rightarrow>
               collect_payers rest
                 (if payer_name \<noteq> [] \<and> payer_name \<notin> set payers
                  then payers @ [payer_name] else payers)
                 (if employer_ein \<noteq> [] \<and> employer_ein \<notin> set eins
                  then eins @ [employer_ein] else eins)))"

fun join_with :: "string \<Rightarrow> string list \<Rightarrow> string" where
  "join_with sep [] = []"
| "join_with sep [x] = x"
| "join_with sep (x # y # ys) = x @ sep @ join_with sep (y # ys)"

text \<open>The merge proper, for two or more records; \<open>base\<close> is the first of them.\<close>

definition merge_documents ::
  "(string \<Rightarrow> real option) \<Rightarrow> pydict \<Rightarrow> pydict list \<Rightarrow> py_error + pydict" where
  "merge_documents fs base all_tax_data =
     (case find_primary base all_tax_data of
        Inl e \<Rightarrow> Inl e
      | Inr primary_taxpayer \<Rightarrow>
     (let c1 = (case primary_taxpayer of
                  None \<Rightarrow> base
                | Some p \<Rightarrow> if p \<noteq> [] then take_identity base p else base);
          c2 = foldl (\<lambda>c field. dict_set c field (PNum (sum_field fs field all_tax_data 0)))
                 c1 money_fields;
          doc_types = distinct_values []
                 (map (\<lambda>data. dict_get data ''document_type'' (PStr ''Other'')) all_tax_data);
          c3 = dict_set c2 ''document_type''
                 (case doc_types of [t] \<Rightarrow> t | ts \<Rightarrow> PStr ''Multiple'');
          source_files = distinct_values []
                 (map (\<lambda>data. dict_get data ''source_filename'' (PStr ''Unknown'')) all_tax_data);
          c4 = dict_set c3 ''source_files'' (PList source_files);
          c5 = dict_set c4 ''documents_processed'' (PNum (real (length all_tax_data)))
      in case py_max_default
                (map (\<lambda>data. dict_get data ''classification_confidence'' (PNum 0)) all_tax_data)
                (PNum 0.8) of
           Inl e \<Rightarrow> Inl e
         | Inr classification \<Rightarrow>
      (case py_max_default
                (map (\<lambda>data. dict_get data ''extraction_confidence'' (PNum 0)) all_tax_data)
                (PNum 0.8) of
           Inl e \<Rightarrow> Inl e
         | Inr extraction \<Rightarrow>
      (let c6 = dict_set c5 ''classification_confidence'' classification;
           c7 = dict_set c6 ''extraction_confidence'' extraction;
           c8 = dict_set c7 ''document_quality'' (PStr (best_quality all_tax_data ''low''))
       in case unique_flags all_tax_data of
            Inl e \<Rightarrow> Inl e
          | Inr flags \<Rightarrow>
       (let c9 = dict_set c8 ''validation_flags'' flags;
            c10 = dict_set c9 ''requires_review''
                    (PBool (list_ex (\<lambda>data. truthy (dict_get data ''requires_review'' (PBool False)))
                                    all_tax_data))
        in case collect_payers all_tax_data [] [] of
             Inl e \<Rightarrow> Inl e
           | Inr (payers, eins) \<Rightarrow>
               Inr (dict_set (dict_set c10 ''payer_name'' (PStr (join_with ''; '' payers)))
                      ''employer_ein'' (PStr (join_with ''; '' eins))))))))"

definition combine_multiple_tax_documents ::
  "(string \<Rightarrow> real option) \<Rightarrow> pydict list \<Rightarrow> py_error + pydict" where
  "combine_multiple_tax_documents fs all_tax_data =
     (case all_tax_data of
        [] \<Rightarrow> Inl (ValueError ''No tax data to combine'')
      | [single] \<Rightarrow> Inr single
      | first # others \<Rightarrow> merge_documents fs first all_tax_data)"

section \<open>Normalising an extraction response (app.py)\<close>






















section \<open>Notions used in the statements\<close>



text \<open>
  A monetary field passes validation untouched: it converts to a float between 0 and
  50,000,000 (an absent field counts as 0).
\<close>

definition field_in_range :: "(string \<Rightarrow> real option) \<Rightarrow> pydict \<Rightarrow> string \<Rightarrow> bool" where
  "field_in_range fs d field =
     (case py_float fs (dict_get d field (PNum 0)) of
        Inl e \<Rightarrow> False
      | Inr v \<Rightarrow> 0 \<le> v \<and> v \<le> 50000000)"

text \<open>
  The filing status is not replaced: lowercased it is a key of the deduction table (an
  absent one counts as \<open>single\<close>), or it is no string at all, so that \<open>.lower()\<close> fails
  before anything is stored.
\<close>

definition status_kept :: "pydict \<Rightarrow> bool" where
  "status_kept d =
     (case py_lower (dict_get d ''filing_status'' (PStr ''single'')) of
        Inl e \<Rightarrow> True
      | Inr st \<Rightarrow> st \<in> set (map fst standard_deductions))"

text \<open>A field of the profile a call returned; \<open>None\<close> when the call raised.\<close>

definition profile_field :: "py_error + pydict \<Rightarrow> string \<Rightarrow> pyval option" where
  "profile_field r k = (case r of Inl e \<Rightarrow> None | Inr c \<Rightarrow> map_of c k)"

text \<open>
  What a record contributes to a combined confidence: the value under the key, 0 when the
  key is absent (\<open>data.get(key, 0)\<close>); \<open>numeric_at\<close> says that this is a number.
\<close>

definition numeric_at :: "string \<Rightarrow> pydict \<Rightarrow> bool" where
  "numeric_at k d = (case dict_get d k (PNum 0) of PNum x \<Rightarrow> True | v \<Rightarrow> False)"

definition confidence_of :: "string \<Rightarrow> pydict \<Rightarrow> real" where
  "confidence_of k d = (case dict_get d k (PNum 0) of PNum x \<Rightarrow> x | v \<Rightarrow> 0)"

section \<open>Rounding\<close>









section \<open>The bracket computation\<close>











text \<open>
  C7. With a taxable income of 50000 the bracket computation returns exactly 6307.50: the
  loop adds 11000 at 10% (1100), 44725 - 11000 at 12% (4047) and 50000 - 44725 at 22%
  (1160.50).
\<close>

theorem federal_tax_of_50000:
  "calculate_federal_tax 50000 = 6307.50 \<and>
   bracket_loop 50000 tax_brackets_single 0 0
     = 11000 * 0.10 + (44725 - 11000) * 0.12 + (50000 - 44725) * 0.22 \<and>
   11000 * 0.10 = (1100 :: real) \<and>
   (44725 - 11000) * 0.12 = (4047 :: real) \<and>
   (50000 - 44725) * 0.22 = (1160.50 :: real)"
  by (simp add: calculate_federal_tax_def federal_tax_body_def tax_brackets_single_def
      round2_def round_half_even_def)





section \<open>The calculator on a tax-data dictionary\<close>

lemmas calc_simps =
  calculate_taxes_def validate_tax_data_def monetary_fields_def validate_field_def
  check_field_def dict_get_def dict_set_def standard_deductions_def str_lower_def
  lower_char_def compute_taxes_def calculate_federal_tax_def federal_tax_body_def
  round2_def round_half_even_def error_result_def tax_brackets_single_def

text \<open>The \<open>try\<close> body of the field check raises only what its \<open>except\<close> clause names.\<close>

lemma check_field_raises:
  "check_field fs d f = Inl e \<Longrightarrow> e = TypeError \<or> (\<exists>m. e = ValueError m)"
  by (cases "dict_get d f (PNum 0)")
    (auto simp: check_field_def split: sum.splits if_splits option.splits)

lemma validate_field_in_range: "field_in_range fs d f \<Longrightarrow> validate_field fs d f = d"
  by (auto simp: field_in_range_def validate_field_def check_field_def split: sum.splits)

text \<open>
  C1. A monetary field above 50,000,000 is meant to fail the calculation. The record
  whose only entry is wages = 60,000,000 shows what happens instead: the
  \<open>ValueError\<close> of the sanity check is caught by the \<open>except\<close> clause of the same loop
  pass, the field is set to 0 in the caller's dictionary, and the result is a successful
  one, without \<open>error\<close>, computed from wages of 0.
\<close>

theorem calculate_taxes_high_field_zeroed:
  "calculate_taxes fs (Dict [(''wages'', PNum 60000000)]) =
     (\<lparr>error = None, total_income = 0, standard_deduction = 14600, taxable_income = 0,
       federal_tax = 0, federal_withholding = 0, refund_or_owed = 0, is_refund = False,
       filing_status = ''single'', calculation_success = True\<rparr>,
      Dict [(''wages'', PNum 0)])"
  by (simp add: calc_simps)

text \<open>
  C2. A taxable income above 100,000,000 is meant to fail the calculation with an error in
  the result. With wages, interest and other income of 50,000,000 each (every field
  passes the field check) the taxable income is 149,985,400; the \<open>ValueError\<close> of the
  sanity check is caught inside \<open>calculate_federal_tax\<close>, which returns 0.0, and the
  result is a successful one with a federal tax of 0.
\<close>

theorem calculate_taxes_high_income_untaxed:
  "calculate_federal_tax 149985400 = 0 \<and>
   fst (calculate_taxes fs
          (Dict [(''wages'', PNum 50000000), (''interest_income'', PNum 50000000),
                 (''other_income'', PNum 50000000), (''federal_withholding'', PNum 1000)])) =
     \<lparr>error = None, total_income = 150000000, standard_deduction = 14600,
       taxable_income = 149985400, federal_tax = 0, federal_withholding = 1000,
       refund_or_owed = 1000, is_refund = True, filing_status = ''single'',
       calculation_success = True\<rparr>"
  by (simp add: calc_simps)

lemma map_of_dict_set: "map_of (dict_set d k v) = (map_of d)(k \<mapsto> v)"
  by (simp add: dict_set_def update_conv')

lemma validate_field_effect:
  "map_of (validate_field fs d f) = map_of d \<or>
   map_of (validate_field fs d f) = (map_of d)(f \<mapsto> PNum 0)"
  by (auto simp: validate_field_def check_field_def map_of_dict_set split: sum.splits)

lemma validate_fields_effect:
  "map_of (foldl (validate_field fs) d flds) k = map_of d k \<or>
   (k \<in> set flds \<and> map_of (foldl (validate_field fs) d flds) k = Some (PNum 0))"
proof (induction flds arbitrary: d)
  case Nil
  then show ?case by simp
next
  case (Cons f flds)
  from validate_field_effect [of fs d f]
  have "map_of (validate_field fs d f) k = map_of d k \<or>
        (k = f \<and> map_of (validate_field fs d f) k = Some (PNum 0))"
    by (cases "k = f") auto
  then show ?case using Cons.IH [of "validate_field fs d f"] by auto
qed

lemma calculate_taxes_unchanged:
  assumes "list_all (field_in_range fs d) monetary_fields" and "status_kept d"
  shows "snd (calculate_taxes fs (Dict d)) = Dict d"
proof -
  have "list_all (\<lambda>f. validate_field fs d f = d) monetary_fields"
    using assms(1) by (auto simp: list_all_iff intro: validate_field_in_range)
  then have v: "foldl (validate_field fs) d monetary_fields = d"
    by (simp add: monetary_fields_def)
  show ?thesis
    using assms(2)
    by (auto simp: calculate_taxes_def validate_tax_data_def status_kept_def v Let_def
        split: sum.splits prod.splits)
qed

lemma calculate_taxes_writes:
  "\<exists>d'. snd (calculate_taxes fs (Dict d)) = Dict d' \<and>
      (\<forall>k. map_of d' k = map_of d k \<or>
           (k \<in> set monetary_fields \<and> map_of d' k = Some (PNum 0)) \<or>
           (k = ''filing_status'' \<and> map_of d' k = Some (PStr ''single'')))"
  using validate_fields_effect [of fs d monetary_fields]
  by (auto simp: calculate_taxes_def validate_tax_data_def Let_def map_of_dict_set
      split: sum.splits prod.splits)

text \<open>
  C4. \<open>calculate_taxes\<close> works on the caller's dictionary in place. It leaves the
  dictionary as it was when each of the four monetary fields converts to a float between
  0 and 50,000,000 and the filing status is not replaced. In any case all it ever does
  to the dictionary is to overwrite one of the four monetary fields with 0 or the
  filing status with \<open>single\<close>; every other entry keeps its value.
\<close>

theorem calculate_taxes_frame:
  "(list_all (field_in_range fs d) monetary_fields \<and> status_kept d \<longrightarrow>
      snd (calculate_taxes fs (Dict d)) = Dict d) \<and>
   (\<exists>d'. snd (calculate_taxes fs (Dict d)) = Dict d' \<and>
      (\<forall>k. map_of d' k = map_of d k \<or>
           (k \<in> set monetary_fields \<and> map_of d' k = Some (PNum 0)) \<or>
           (k = ''filing_status'' \<and> map_of d' k = Some (PStr ''single''))))"
  using calculate_taxes_unchanged [of fs d] calculate_taxes_writes [of fs d] by blast

theorem calculate_taxes_frame_witness:
  "list_all (field_in_range decimal_float
       [(''wages'', PNum 60000), (''federal_withholding'', PNum 6000),
        (''filing_status'', PStr ''Single'')]) monetary_fields \<and>
   status_kept [(''wages'', PNum 60000), (''federal_withholding'', PNum 6000),
        (''filing_status'', PStr ''Single'')] \<and>
   snd (calculate_taxes decimal_float
          (Dict [(''wages'', PNum 60000), (''federal_withholding'', PNum 6000),
                 (''filing_status'', PStr ''Single'')])) =
     Dict [(''wages'', PNum 60000), (''federal_withholding'', PNum 6000),
           (''filing_status'', PStr ''Single'')]"
proof -
  have a: "list_all (field_in_range decimal_float
       [(''wages'', PNum 60000), (''federal_withholding'', PNum 6000),
        (''filing_status'', PStr ''Single'')]) monetary_fields"
    by (simp add: field_in_range_def monetary_fields_def dict_get_def)
  have b: "status_kept [(''wages'', PNum 60000), (''federal_withholding'', PNum 6000),
        (''filing_status'', PStr ''Single'')]"
    by code_simp
  show ?thesis
    using a b calculate_taxes_frame [of decimal_float
       "[(''wages'', PNum 60000), (''federal_withholding'', PNum 6000),
         (''filing_status'', PStr ''Single'')]"]
    by blast
qed

text \<open>
  C4, as the specification states it, fails: a negative wage is overwritten with 0 in the
  dictionary the caller passed.
\<close>

theorem calculate_taxes_mutates_input:
  "snd (calculate_taxes decimal_float (Dict [(''wages'', PNum (- 5))]))
     = Dict [(''wages'', PNum 0)] \<and>
   snd (calculate_taxes decimal_float (Dict [(''wages'', PNum (- 5))]))
     \<noteq> Dict [(''wages'', PNum (- 5))]"
  by (simp add: calc_simps)

section \<open>The combiner\<close>

lemmas combine_simps =
  combine_multiple_tax_documents_def merge_documents_def take_identity_def
  identity_text_fields_def money_fields_def dict_get_def dict_set_def py_max_default_def
  unique_flags_def qualities_def str_strip_def is_space_def profile_field_def Let_def

text \<open>
  C9. Combining a batch of exactly one record returns that record, field for field.
\<close>

theorem combine_single_record:
  "combine_multiple_tax_documents fs [record] = Inr record"
  by (simp add: combine_multiple_tax_documents_def)

text \<open>
  C3. The identity fields are meant to come from the record with the longest trimmed
  name of the whole batch. With three records named A, BB and CCC the search stops at
  BB, the first name longer than that of the first record: the profile carries the name
  and the SSN of the second record, not of the third.
\<close>

theorem combine_identity_stops_early:
  "profile_field (combine_multiple_tax_documents fs
      [[(''taxpayer_name'', PStr ''A''), (''ssn'', PStr ''1'')],
       [(''taxpayer_name'', PStr ''BB''), (''ssn'', PStr ''2'')],
       [(''taxpayer_name'', PStr ''CCC''), (''ssn'', PStr ''3'')]]) ''taxpayer_name''
     = Some (PStr ''BB'') \<and>
   profile_field (combine_multiple_tax_documents fs
      [[(''taxpayer_name'', PStr ''A''), (''ssn'', PStr ''1'')],
       [(''taxpayer_name'', PStr ''BB''), (''ssn'', PStr ''2'')],
       [(''taxpayer_name'', PStr ''CCC''), (''ssn'', PStr ''3'')]]) ''ssn''
     = Some (PStr ''2'')"
  by (simp add: combine_simps)

lemma py_max_from_nums: "py_max_from (PNum b) (map PNum xs) = Inr (PNum (fold max xs b))"
  by (induction xs arbitrary: b) (auto simp: max_def)

lemma py_max_default_nums:
  "py_max_default (map PNum (x # xs)) dflt = Inr (PNum (Max (set (x # xs))))"
  by (simp add: py_max_default_def py_max_from_nums Max.set_eq_fold del: set_simps)

lemma numeric_values:
  "list_all (numeric_at k) ds \<Longrightarrow>
     map (\<lambda>d. dict_get d k (PNum 0)) ds = map PNum (map (confidence_of k) ds)"
  by (induction ds) (auto simp: numeric_at_def confidence_of_def split: pyval.splits)

lemma merge_confidence:
  assumes "merge_documents fs base ds = Inr c"
    and "k = ''classification_confidence'' \<or> k = ''extraction_confidence''"
  shows "py_max_default (map (\<lambda>d. dict_get d k (PNum 0)) ds) (PNum 0.8)
           = Inr (the (map_of c k)) \<and> map_of c k \<noteq> None"
  using assms
  by (auto simp: merge_documents_def Let_def map_of_dict_set split: sum.splits prod.splits)

lemma combine_confidence:
  assumes len: "2 \<le> length ds"
    and k: "k = ''classification_confidence'' \<or> k = ''extraction_confidence''"
    and num: "list_all (numeric_at k) ds"
    and res: "combine_multiple_tax_documents fs ds = Inr c"
  shows "map_of c k = Some (PNum (Max (set (map (confidence_of k) ds))))"
proof -
  from len obtain a b rest where ds: "ds = a # b # rest"
    by (cases ds; cases "tl ds") auto
  with res have m: "merge_documents fs a ds = Inr c"
    by (simp add: combine_multiple_tax_documents_def)
  have "map (confidence_of k) ds = confidence_of k a # map (confidence_of k) (b # rest)"
    using ds by simp
  then have "py_max_default (map (\<lambda>d. dict_get d k (PNum 0)) ds) (PNum 0.8)
               = Inr (PNum (Max (set (map (confidence_of k) ds))))"
    using numeric_values [OF num] py_max_default_nums by metis
  then show ?thesis using merge_confidence [OF m k] by auto
qed

lemma confidence_of_absent: "map_of d k = None \<Longrightarrow> confidence_of k d = 0"
  by (simp add: confidence_of_def dict_get_def)

text \<open>
  C5. For two or more records whose entries for a confidence field are numbers, the
  combined field is the maximum over the records of what each contributes, an absent
  entry contributing 0. So when no record has an entry the combined field is 0; the
  default 0.8 of \<open>max\<close> is for an empty batch, which the merge never sees.
\<close>

theorem combine_confidence_is_maximum:
  assumes "2 \<le> length all_tax_data"
    and "k = ''classification_confidence'' \<or> k = ''extraction_confidence''"
    and "list_all (numeric_at k) all_tax_data"
    and "combine_multiple_tax_documents fs all_tax_data = Inr combined"
  shows "map_of combined k = Some (PNum (Max (set (map (confidence_of k) all_tax_data)))) \<and>
         (list_all (\<lambda>d. map_of d k = None) all_tax_data \<longrightarrow> map_of combined k = Some (PNum 0))"
proof -
  have m: "map_of combined k = Some (PNum (Max (set (map (confidence_of k) all_tax_data))))"
    using assms by (rule combine_confidence)
  have "set (map (confidence_of k) all_tax_data) = {0}"
    if "list_all (\<lambda>d. map_of d k = None) all_tax_data"
  proof -
    from assms(1) have "all_tax_data \<noteq> []" by auto
    moreover have "\<forall>d \<in> set all_tax_data. confidence_of k d = 0"
      using that by (simp add: list_all_iff confidence_of_absent)
    ultimately show ?thesis by (cases all_tax_data) auto
  qed
  then show ?thesis using m by simp
qed

theorem combine_confidence_is_maximum_witness:
  "2 \<le> length [[(''taxpayer_name'', PStr ''A''), (''classification_confidence'', PNum 0.9)],
                [(''taxpayer_name'', PStr ''B''), (''classification_confidence'', PNum 0.95)]] \<and>
   list_all (numeric_at ''classification_confidence'')
     [[(''taxpayer_name'', PStr ''A''), (''classification_confidence'', PNum 0.9)],
      [(''taxpayer_name'', PStr ''B''), (''classification_confidence'', PNum 0.95)]] \<and>
   profile_field (combine_multiple_tax_documents decimal_float
     [[(''taxpayer_name'', PStr ''A''), (''classification_confidence'', PNum 0.9)],
      [(''taxpayer_name'', PStr ''B''), (''classification_confidence'', PNum 0.95)]])
     ''classification_confidence'' = Some (PNum 0.95)"
proof -
  let ?ds = "[[(''taxpayer_name'', PStr ''A''), (''classification_confidence'', PNum 0.9)],
              [(''taxpayer_name'', PStr ''B''), (''classification_confidence'', PNum 0.95)]]"
  have a: "2 \<le> length ?ds" by simp
  have b: "list_all (numeric_at ''classification_confidence'') ?ds"
    by (simp add: numeric_at_def dict_get_def)
  obtain c where c: "combine_multiple_tax_documents decimal_float ?ds = Inr c"
    by (simp add: combine_simps)
  have "Max (set (map (confidence_of ''classification_confidence'') ?ds)) = 0.95"
    by (simp add: confidence_of_def dict_get_def)
  then have "map_of c ''classification_confidence'' = Some (PNum 0.95)"
    using combine_confidence_is_maximum [OF a _ b c] by simp
  then show ?thesis using a b c by (simp add: profile_field_def)
qed

text \<open>
  C5, as the specification states it, fails: two records without confidence entries give
  a combined confidence of 0 for both fields, not 0.8.
\<close>

theorem combine_confidence_default_unused:
  "profile_field (combine_multiple_tax_documents decimal_float
      [[(''taxpayer_name'', PStr ''A'')], [(''taxpayer_name'', PStr ''B'')]])
      ''classification_confidence'' = Some (PNum 0) \<and>
   profile_field (combine_multiple_tax_documents decimal_float
      [[(''taxpayer_name'', PStr ''A'')], [(''taxpayer_name'', PStr ''B'')]])
      ''extraction_confidence'' = Some (PNum 0) \<and>
   PNum 0 \<noteq> PNum 0.8"
  by (simp add: combine_simps)

section \<open>The normaliser\<close>




















end
